theory Spec2Isabelle
  imports Main
begin

section \<open>Python strings and the regular expressions of the import scripts\<close>

text \<open>
  Item codes are Python \<open>str\<close> values. They are modelled as \<open>string\<close>, one \<open>char\<close> per
  code point below 256. In that range the class \<open>\d\<close> of Python's \<open>re\<close> is exactly
  \<open>0\<close>..\<open>9\<close>, and \<open>[A-Z]\<close> is the ASCII upper-case letters.
\<close>

definition is_upper :: "char \<Rightarrow> bool" where
  "is_upper c = (65 \<le> (of_char c :: nat) \<and> (of_char c :: nat) \<le> 90)"

definition is_digit :: "char \<Rightarrow> bool" where
  "is_digit c = (48 \<le> (of_char c :: nat) \<and> (of_char c :: nat) \<le> 57)"

definition digit_val :: "char \<Rightarrow> int" where
  "digit_val c = int (of_char c) - 48"

text \<open>
  \<open>int(s)\<close> of Python. Every call of the scripts passes a group matched by \<open>\d+\<close> or
  \<open>\d{2}\<close>, or the first character of one of \<open>'2DB'\<close>, \<open>'3DB'\<close>, \<open>'4DB'\<close>, \<open>'5DB'\<close>:
  a non-empty string of decimal digits, on which \<open>int\<close> does not raise.
\<close>

definition py_int :: "string \<Rightarrow> int" where
  "py_int s = foldl (\<lambda>a c. 10 * a + digit_val c) 0 s"

text \<open>\<open>sub in s\<close> for a non-empty \<open>sub\<close>.\<close>

fun str_contains :: "string \<Rightarrow> string \<Rightarrow> bool" where
  "str_contains sub [] = (sub = [])"
| "str_contains sub (c # cs) = (take (length sub) (c # cs) = sub \<or> str_contains sub cs)"

text \<open>
  \<open>s.replace(sub, '')\<close> for a non-empty \<open>sub\<close>: every occurrence, scanning from the left,
  is dropped; the scan goes on after the occurrence and never looks at its own output again.
\<close>

function str_remove :: "string \<Rightarrow> string \<Rightarrow> string" where
  "str_remove sub [] = []"
| "str_remove sub (c # cs) =
     (if sub \<noteq> [] \<and> take (length sub) (c # cs) = sub
      then str_remove sub (drop (length sub) (c # cs))
      else c # str_remove sub cs)"
  by pat_completeness auto
termination
  by (relation "measure (\<lambda>(sub, s). length s)") (auto simp: neq_Nil_conv)

definition endswith :: "string \<Rightarrow> char \<Rightarrow> bool" where
  "endswith s c = (s \<noteq> [] \<and> last s = c)"

text \<open>
  \<open>$\<close> without \<open>re.MULTILINE\<close>: the end of the string, or the position just before a
  line feed that is the last character of the string.
\<close>

definition at_end :: "string \<Rightarrow> bool" where
  "at_end rest = (rest = [] \<or> rest = [CHR 0x0A])"

text \<open>
  The four entries of the list \<open>patterns\<close> of \<open>parse_item_code\<close>, in the order of the
  source; the first and the last are the same expression.
\<close>

datatype pattern = Base_pattern | Wall_pattern | Drawer_pattern | Special_pattern

definition patterns :: "pattern list" where
  "patterns = [Base_pattern, Wall_pattern, Drawer_pattern, Special_pattern]"

text \<open>
  \<open>^([A-Z]+)(\d+)([A-Z]*)$\<close>. The character classes of neighbouring groups are disjoint, so
  each greedy group can only take its whole run: giving a character back leaves the next
  group in front of a character it cannot take. The match is therefore the greedy one or
  none.
\<close>

definition match_letters_digits_letters :: "string \<Rightarrow> string list option" where
  "match_letters_digits_letters s =
     (let g0 = takeWhile is_upper s; r0 = dropWhile is_upper s;
          g1 = takeWhile is_digit r0; r1 = dropWhile is_digit r0;
          g2 = takeWhile is_upper r1; r2 = dropWhile is_upper r1
      in if g0 \<noteq> [] \<and> g1 \<noteq> [] \<and> at_end r2 then Some [g0, g1, g2] else None)"

text \<open>\<open>^([A-Z]+)(\d{2})(\d{2})$\<close>\<close>

definition match_letters_2digits_2digits :: "string \<Rightarrow> string list option" where
  "match_letters_2digits_2digits s =
     (let g0 = takeWhile is_upper s; r0 = dropWhile is_upper s;
          g1 = take 2 r0; g2 = take 2 (drop 2 r0); r2 = drop 4 r0
      in if g0 \<noteq> [] \<and> length g1 = 2 \<and> list_all is_digit g1
            \<and> length g2 = 2 \<and> list_all is_digit g2 \<and> at_end r2
         then Some [g0, g1, g2] else None)"

text \<open>\<open>^(\d+[A-Z]+)(\d+)$\<close>\<close>

definition match_digits_letters_digits :: "string \<Rightarrow> string list option" where
  "match_digits_letters_digits s =
     (let d = takeWhile is_digit s; r0 = dropWhile is_digit s;
          l = takeWhile is_upper r0; r1 = dropWhile is_upper r0;
          g1 = takeWhile is_digit r1; r2 = dropWhile is_digit r1
      in if d \<noteq> [] \<and> l \<noteq> [] \<and> g1 \<noteq> [] \<and> at_end r2 then Some [d @ l, g1] else None)"

text \<open>\<open>re.match(pattern, item_code)\<close>, giving \<open>match.groups()\<close>; \<open>None\<close> when there is no match.\<close>

fun re_match :: "pattern \<Rightarrow> string \<Rightarrow> string list option" where
  "re_match Base_pattern s = match_letters_digits_letters s"
| "re_match Wall_pattern s = match_letters_2digits_2digits s"
| "re_match Drawer_pattern s = match_digits_letters_digits s"
| "re_match Special_pattern s = match_letters_digits_letters s"

text \<open>
  \<open>re.search\<close>: the expression is tried at every position from the left, the end of the
  string included; \<open>m\<close> is the expression anchored at the position it is given.
\<close>

fun re_search :: "(string \<Rightarrow> 'a option) \<Rightarrow> string \<Rightarrow> 'a option" where
  "re_search m [] = m []"
| "re_search m (c # cs) = (case m (c # cs) of Some g \<Rightarrow> Some g | None \<Rightarrow> re_search m cs)"

text \<open>\<open>(\d+)\<close> at a position: group 1.\<close>

definition match_digits :: "string \<Rightarrow> string option" where
  "match_digits s = (let g = takeWhile is_digit s in if g \<noteq> [] then Some g else None)"

section \<open>import\_cabinet\_csv.py: class CabinetCSVImporter\<close>

text \<open>
  The fields that \<open>__init__\<close> sets. The connection is a handle of the database driver:
  \<open>None\<close> until \<open>connect\<close> is called.
\<close>

record importer =
  db_url :: string
  dry_run :: bool
  conn :: "nat option"
  stats :: "(string \<times> int) list"
  color_options_cache :: "(string \<times> int) list"
  box_materials_cache :: "(string \<times> int) list"
  cabinet_types_cache :: "(string \<times> int) list"

definition init_importer :: "string \<Rightarrow> bool \<Rightarrow> importer" where
  "init_importer url dry =
     \<lparr> db_url = url, dry_run = dry, conn = None,
       stats = [(''total_rows'', 0), (''products_created'', 0), (''variants_created'', 0),
                (''pricing_records_created'', 0), (''errors'', 0), (''duplicates_skipped'', 0)],
       color_options_cache = [], box_materials_cache = [], cabinet_types_cache = [] \<rparr>"

text \<open>The dictionary \<open>result\<close> of \<open>parse_item_code\<close>; \<open>None\<close> of Python is \<open>None\<close>.\<close>

record parse_result =
  width :: "int option"
  height :: "int option"
  depth :: "int option"
  type_code :: "string option"
  is_left_right :: bool
  door_count :: int
  drawer_count :: int

definition type_mapping :: "(string \<times> string) list" where
  "type_mapping =
     [(''BFD'', ''B''), (''BC'', ''BC''), (''BLS'', ''BLS''), (''W'', ''W''),
      (''2DB'', ''2DB''), (''3DB'', ''3DB''), (''4DB'', ''4DB''), (''5DB'', ''5DB''),
      (''PC'', ''PC''), (''V'', ''V''), (''VB'', ''VB''), (''VD'', ''VD''),
      (''VDB'', ''VDB''), (''VSB'', ''VSB''), (''SB'', ''SB''), (''F'', ''F''),
      (''PNL'', ''PNL''), (''D'', ''D''), (''MOC'', ''MOC''), (''TK'', ''TK''),
      (''DWP'', ''DWP''), (''RP'', ''RP''), (''ADA'', ''ADA''), (''CF'', ''CF'')]"

text \<open>
  \<open>type_mapping.get(type_code, 'B')\<close>. The caller passes \<open>result['type_code']\<close>, which
  Python allows to be \<open>None\<close>; \<open>None\<close> is not a key of the dictionary.
\<close>

definition normalize_type_code :: "importer \<Rightarrow> string option \<Rightarrow> string" where
  "normalize_type_code self tc =
     (case tc of
        None \<Rightarrow> ''B''
      | Some t \<Rightarrow> (case map_of type_mapping t of Some v \<Rightarrow> v | None \<Rightarrow> ''B''))"

definition infer_door_drawer_count :: "importer \<Rightarrow> string option \<Rightarrow> string \<Rightarrow> int \<times> int" where
  "infer_door_drawer_count self tc item_code =
     (if tc \<in> set [Some ''2DB'', Some ''3DB'', Some ''4DB'', Some ''5DB'']
      then (0, py_int (take 1 (the tc)))
      else if tc \<in> set [Some ''B'', Some ''BFD'']
      then (case re_search match_digits item_code of
              Some g \<Rightarrow> (if py_int g < 24 then 1 else 2, 0)
            | None \<Rightarrow> (0, 0))
      else if tc = Some ''W''
      then (2, 0)
      else (if tc \<notin> set [Some ''F'', Some ''PNL'', Some ''TK'', Some ''D''] then 1 else 0, 0))"

text \<open>
  Lines 140 to 146 of \<open>parse_item_code\<close>: the code with its left/right marker removed, and
  the value of \<open>result['is_left_right']\<close>.
\<close>

definition strip_left_right :: "string \<Rightarrow> string \<times> bool" where
  "strip_left_right item_code =
     (if str_contains ''-L/R'' item_code then (str_remove ''-L/R'' item_code, True)
      else if endswith item_code CHR ''L'' \<or> endswith item_code CHR ''R''
      then (butlast item_code, True)
      else (item_code, False))"

text \<open>
  Lines 165 to 173, the body of \<open>if len(groups) >= 2\<close>: the type token is group 0, and
  group 1 gives the dimensions.
\<close>

definition extract_groups :: "string list \<Rightarrow> parse_result \<Rightarrow> parse_result" where
  "extract_groups groups result =
     (if length groups \<ge> 2
      then (let r = result\<lparr>type_code := Some (groups ! 0)\<rparr>; g1 = groups ! 1
            in if length g1 = 4
               then r\<lparr>width := Some (py_int (take 2 g1)), height := Some (py_int (drop 2 g1))\<rparr>
               else if length g1 \<ge> 2
               then r\<lparr>width := Some (py_int g1)\<rparr>
               else r)
      else result)"

text \<open>The loop \<open>for pattern in patterns\<close>, left at the first pattern that matches.\<close>

fun match_loop :: "importer \<Rightarrow> pattern list \<Rightarrow> string \<Rightarrow> parse_result \<Rightarrow> parse_result" where
  "match_loop self [] item_code result = result"
| "match_loop self (p # ps) item_code result =
     (case re_match p item_code of
        None \<Rightarrow> match_loop self ps item_code result
      | Some groups \<Rightarrow>
          (let r = extract_groups groups result
           in r\<lparr>type_code := Some (normalize_type_code self (type_code r))\<rparr>))"

definition initial_result :: parse_result where
  "initial_result =
     \<lparr> width = None, height = None, depth = None, type_code = None,
       is_left_right = False, door_count = 0, drawer_count = 0 \<rparr>"

definition parse_item_code :: "importer \<Rightarrow> string \<Rightarrow> parse_result" where
  "parse_item_code self item_code =
     (let (code, lr) = strip_left_right item_code;
          r = match_loop self patterns code (initial_result\<lparr>is_left_right := lr\<rparr>);
          (doors, drawers) = infer_door_drawer_count self (type_code r) code
      in r\<lparr>door_count := doors, drawer_count := drawers\<rparr>)"

section \<open>simple\_import.py: the width of a row in main\<close>

text \<open>
  \<open>[A-Z]+(\d{2})\<close> at a position, giving group 1. \<open>re.match(r'^[A-Z]+\d{2}[A-Z]*', ...)\<close>
  succeeds exactly when this does at position 0: the closing \<open>[A-Z]*\<close> may be empty and
  no \<open>$\<close> follows it.
\<close>

definition match_letters_2digits :: "string \<Rightarrow> string option" where
  "match_letters_2digits s =
     (let l = takeWhile is_upper s; g = take 2 (dropWhile is_upper s)
      in if l \<noteq> [] \<and> length g = 2 \<and> list_all is_digit g then Some g else None)"

text \<open>\<open>W(\d{2})\d{2}\<close> at a position, giving group 1; also the test \<open>^W\d{4}\<close>.\<close>

definition match_W_4digits :: "string \<Rightarrow> string option" where
  "match_W_4digits s =
     (let g = take 2 (drop 1 s); h = take 2 (drop 3 s)
      in if take 1 s = ''W'' \<and> length g = 2 \<and> list_all is_digit g
            \<and> length h = 2 \<and> list_all is_digit h
         then Some g else None)"

text \<open>\<open>\d+[A-Z]+(\d+)\<close> at a position, giving group 1; also the test \<open>^\d+[A-Z]+\d+\<close>.\<close>

definition match_digits_letters_digits_open :: "string \<Rightarrow> string option" where
  "match_digits_letters_digits_open s =
     (let d = takeWhile is_digit s; r0 = dropWhile is_digit s;
          l = takeWhile is_upper r0; g = takeWhile is_digit (dropWhile is_upper r0)
      in if d \<noteq> [] \<and> l \<noteq> [] \<and> g \<noteq> [] then Some g else None)"

text \<open>
  Lines 72 to 87 of \<open>main\<close>: \<open>width\<close> starts at the default 24 and is replaced by the
  number read from the item code when one of the three tests holds and its search finds
  a match.
\<close>

definition extracted_width :: "string \<Rightarrow> int" where
  "extracted_width item_code =
     (if match_letters_2digits item_code \<noteq> None
      then (case re_search match_letters_2digits item_code of
              Some g \<Rightarrow> py_int g | None \<Rightarrow> 24)
      else if match_W_4digits item_code \<noteq> None
      then (case re_search match_W_4digits item_code of
              Some g \<Rightarrow> py_int g | None \<Rightarrow> 24)
      else if match_digits_letters_digits_open item_code \<noteq> None
      then (case re_search match_digits_letters_digits_open item_code of
              Some g \<Rightarrow> py_int g | None \<Rightarrow> 24)
      else 24)"

text \<open>Lines 72 to 91: the width that \<open>main\<close> stores, after the check of lines 89 to 91.\<close>

definition main_width :: "string \<Rightarrow> int" where
  "main_width item_code =
     (let width = extracted_width item_code
      in if width < 6 \<or> width > 96 then 24 else width)"

section \<open>Properties\<close>

text \<open>The bounds of the data model: a width is unset or between 6 and 96 inches.\<close>

definition width_in_range :: "parse_result \<Rightarrow> bool" where
  "width_in_range r = (case width r of None \<Rightarrow> True | Some w \<Rightarrow> 6 \<le> w \<and> w \<le> 96)"

subsection \<open>Facts about the string operations and the pattern loop\<close>

lemma contains_marker_suffix: "str_contains ''-L/R'' (b @ ''-L/R'')"
  by (induction b) auto

lemma remove_marker_suffix:
  "\<not> str_contains ''-L/R'' b \<Longrightarrow> str_remove ''-L/R'' (b @ ''-L/R'') = b"
proof (induction b)
  case Nil
  show ?case by simp
next
  case (Cons x xs)
  then have nc: "\<not> str_contains ''-L/R'' xs" and nt: "take 4 (x # xs) \<noteq> ''-L/R''"
    by (simp_all add: eval_nat_numeral)
  have "take 4 (x # xs @ ''-L/R'') \<noteq> ''-L/R''"
  proof (cases "length xs \<ge> 3")
    case True
    then show ?thesis using nt by (simp add: eval_nat_numeral)
  next
    case False
    then consider "xs = []" | a where "xs = [a]" | a b where "xs = [a, b]"
      by (cases xs; cases "tl xs"; cases "tl (tl xs)") auto
    then show ?thesis by cases auto
  qed
  then have ne: "take (length ''-L/R'') (x # xs @ ''-L/R'') \<noteq> ''-L/R''"
    by (simp add: eval_nat_numeral)
  have "str_remove ''-L/R'' (x # xs @ ''-L/R'') = x # str_remove ''-L/R'' (xs @ ''-L/R'')"
    by (subst str_remove.simps) (simp only: ne simp_thms if_False)
  then show ?case using Cons.IH [OF nc] by simp
qed

lemma match_loop_self: "match_loop s1 ps c r = match_loop s2 ps c r"
  by (induction ps) (auto simp: normalize_type_code_def split: option.splits)

lemma match_loop_no_match:
  "\<forall>p \<in> set ps. re_match p c = None \<Longrightarrow> match_loop self ps c r = r"
  by (induction ps) auto

lemma match_loop_unknown:
  assumes "\<exists>p \<in> set ps. re_match p c \<noteq> None"
    and "\<forall>p \<in> set ps. \<forall>gs. re_match p c = Some gs \<longrightarrow> map_of type_mapping (gs ! 0) = None"
    and "type_code r = None"
  shows "type_code (match_loop self ps c r) = Some ''B''"
  using assms
proof (induction ps)
  case Nil
  then show ?case by simp
next
  case (Cons p ps)
  show ?case
  proof (cases "re_match p c")
    case None
    with Cons show ?thesis by auto
  next
    case (Some gs)
    with Cons.prems have "map_of type_mapping (gs ! 0) = None" by auto
    with Some Cons.prems(3) show ?thesis
      by (simp add: extract_groups_def normalize_type_code_def Let_def)
  qed
qed

subsection \<open>Width bounds\<close>

text \<open>
  C1, as stated, fails for \<open>parse_item_code\<close>, which checks no bounds: the code \<open>B120\<close>
  is decoded with width 120.
\<close>

theorem parse_item_code_width_unbounded:
  "width (parse_item_code (init_importer [] False) ''B120'') = Some 120
   \<and> \<not> width_in_range (parse_item_code (init_importer [] False) ''B120'')"
  by code_simp

text \<open>
  C1, amended: the width that \<open>main\<close> of simple\_import.py stores is always set and lies in
  6..96; it is the number read from the item code when that number lies in 6..96 and the
  default 24 otherwise. \<open>B3\<close> matches none of the three tests and keeps the default;
  \<open>2DB120\<close> reads 120 and is given the default.
\<close>

theorem main_width_bounds:
  "6 \<le> main_width c \<and> main_width c \<le> 96
   \<and> main_width c =
       (if 6 \<le> extracted_width c \<and> extracted_width c \<le> 96 then extracted_width c else 24)
   \<and> main_width ''B3'' = 24
   \<and> extracted_width ''2DB120'' = 120 \<and> main_width ''2DB120'' = 24"
proof -
  have "main_width ''B3'' = 24" "extracted_width ''2DB120'' = 120" "main_width ''2DB120'' = 24"
    by code_simp+
  then show ?thesis by (auto simp: main_width_def Let_def)
qed

subsection \<open>Left/right markers\<close>

text \<open>
  C2, as stated, fails: rule (b) of the code does not ask for a digit before the trailing
  letter. \<open>B24FDR\<close> has the letter \<open>D\<close> before its final \<open>R\<close>, and the \<open>R\<close> is still
  stripped and the record marked left/right.
\<close>

theorem strip_left_right_letter_before:
  "\<not> is_digit (last (butlast ''B24FDR''))
   \<and> strip_left_right ''B24FDR'' = (''B24FD'', True)
   \<and> is_left_right (parse_item_code (init_importer [] False) ''B24FDR'')"
  by code_simp

text \<open>
  C2, amended: (a) a code that contains \<open>-L/R\<close> loses every occurrence of it and is
  marked left/right; (b) otherwise a code that ends in \<open>L\<close> or \<open>R\<close> loses that letter
  and is marked, whatever stands before the letter and whatever is left; (c) otherwise the
  code is unchanged and not marked. A code \<open>b\<close> followed by the suffix \<open>-L/R\<close>, with no
  marker in \<open>b\<close>, is reduced to \<open>b\<close>; when \<open>b\<close> does not end in \<open>L\<close> or \<open>R\<close> either,
  its record is the record of \<open>b\<close> with the mark set.
\<close>

theorem strip_left_right_rules:
  "(str_contains ''-L/R'' c \<longrightarrow> strip_left_right c = (str_remove ''-L/R'' c, True))
   \<and> (\<not> str_contains ''-L/R'' c \<and> (endswith c CHR ''L'' \<or> endswith c CHR ''R'')
        \<longrightarrow> strip_left_right c = (butlast c, True))
   \<and> (\<not> str_contains ''-L/R'' c \<and> \<not> endswith c CHR ''L'' \<and> \<not> endswith c CHR ''R''
        \<longrightarrow> strip_left_right c = (c, False))
   \<and> (\<not> str_contains ''-L/R'' b \<longrightarrow> strip_left_right (b @ ''-L/R'') = (b, True))
   \<and> (\<not> str_contains ''-L/R'' b \<and> \<not> endswith b CHR ''L'' \<and> \<not> endswith b CHR ''R''
        \<longrightarrow> parse_item_code self (b @ ''-L/R'')
            = (parse_item_code self b)\<lparr>is_left_right := True\<rparr>)"
proof -
  have suffix: "strip_left_right (b @ ''-L/R'') = (b, True)" if "\<not> str_contains ''-L/R'' b"
    using that by (simp add: strip_left_right_def contains_marker_suffix remove_marker_suffix)
  have "parse_item_code self (b @ ''-L/R'') = (parse_item_code self b)\<lparr>is_left_right := True\<rparr>"
    if "\<not> str_contains ''-L/R'' b" "\<not> endswith b CHR ''L''" "\<not> endswith b CHR ''R''"
  proof -
    have plain: "strip_left_right b = (b, False)"
      using that by (simp add: strip_left_right_def)
    have upd: "match_loop self ps b (r\<lparr>is_left_right := v\<rparr>)
               = (match_loop self ps b r)\<lparr>is_left_right := v\<rparr>" for ps r v
      by (induction ps) (auto simp: extract_groups_def Let_def split: option.splits)
    show ?thesis
      unfolding parse_item_code_def suffix [OF that(1)] plain
      by (simp add: upd Let_def split: prod.splits)
  qed
  then show ?thesis using suffix by (simp add: strip_left_right_def)
qed

theorem strip_left_right_rules_witness:
  "str_contains ''-L/R'' ''B18-L/R''
   \<and> strip_left_right ''B18-L/R'' = (''B18'', True)
   \<and> \<not> str_contains ''-L/R'' ''BC39R'' \<and> endswith ''BC39R'' CHR ''R''
   \<and> strip_left_right ''BC39R'' = (''BC39'', True)
   \<and> \<not> str_contains ''-L/R'' ''B18''
   \<and> \<not> endswith ''B18'' CHR ''L'' \<and> \<not> endswith ''B18'' CHR ''R''
   \<and> strip_left_right ''B18'' = (''B18'', False)
   \<and> parse_item_code (init_importer [] False) (''B18'' @ ''-L/R'')
       = (parse_item_code (init_importer [] False) ''B18'')\<lparr>is_left_right := True\<rparr>"
  using strip_left_right_rules [of "''B18-L/R''" "''B18''" "init_importer [] False"]
    strip_left_right_rules [of "''BC39R''" "''B18''" "init_importer [] False"]
    strip_left_right_rules [of "''B18''" "''B18''" "init_importer [] False"]
  by (simp add: endswith_def)

subsection \<open>Golden cases\<close>

text \<open>
  C3: \<open>W3630\<close> is decoded as type \<open>W\<close> (wall), width 36, height 30, two doors, no
  drawer, not left/right. The first pattern matches it with the four digits as one
  group, which is split two and two.
\<close>

theorem decode_W3630:
  "parse_item_code self ''W3630'' =
     \<lparr> width = Some 36, height = Some 30, depth = None, type_code = Some ''W'',
       is_left_right = False, door_count = 2, drawer_count = 0 \<rparr>
   \<and> re_match Base_pattern ''W3630'' = Some [''W'', ''3630'', '''']"
  by code_simp

text \<open>
  C4: \<open>2DB24\<close> is matched by the drawer-base pattern and decoded as type \<open>2DB\<close>
  (2-drawer base), width 24, no door, two drawers (the leading digit of the type), not
  left/right.
\<close>

theorem decode_2DB24:
  "parse_item_code self ''2DB24'' =
     \<lparr> width = Some 24, height = None, depth = None, type_code = Some ''2DB'',
       is_left_right = False, door_count = 0, drawer_count = 2 \<rparr>
   \<and> re_match Base_pattern ''2DB24'' = None \<and> re_match Wall_pattern ''2DB24'' = None
   \<and> re_match Drawer_pattern ''2DB24'' = Some [''2DB'', ''24'']"
  by code_simp

subsection \<open>Codes that no pattern matches\<close>

text \<open>
  C5, as stated, fails: \<open>ADA-SB3024\<close> is matched by none of the patterns and its record
  has no type at all.
\<close>

theorem no_match_type_unset:
  "strip_left_right ''ADA-SB3024'' = (''ADA-SB3024'', False)
   \<and> re_match Base_pattern ''ADA-SB3024'' = None
   \<and> re_match Wall_pattern ''ADA-SB3024'' = None
   \<and> re_match Drawer_pattern ''ADA-SB3024'' = None
   \<and> re_match Special_pattern ''ADA-SB3024'' = None
   \<and> type_code (parse_item_code (init_importer [] False) ''ADA-SB3024'') = None"
  by code_simp

text \<open>
  C5, amended: for a code that none of the patterns matches (after the left/right
  marker is removed), \<open>parse_item_code\<close> leaves the type unset as well as width, height
  and depth, and gives one door and no drawer.
\<close>

theorem no_match_result:
  assumes "\<forall>p \<in> set patterns. re_match p (fst (strip_left_right c)) = None"
  shows "parse_item_code self c =
     \<lparr> width = None, height = None, depth = None, type_code = None,
       is_left_right = snd (strip_left_right c), door_count = 1, drawer_count = 0 \<rparr>"
proof -
  obtain code lr where s: "strip_left_right c = (code, lr)" by (cases "strip_left_right c")
  with assms have "match_loop self patterns code r = r" for r
    by (simp add: match_loop_no_match)
  then show ?thesis
    by (simp add: parse_item_code_def s initial_result_def infer_door_drawer_count_def)
qed

theorem no_match_result_witness:
  "re_match Base_pattern (fst (strip_left_right ''ADA-SB3024'')) = None
   \<and> re_match Wall_pattern (fst (strip_left_right ''ADA-SB3024'')) = None
   \<and> re_match Drawer_pattern (fst (strip_left_right ''ADA-SB3024'')) = None
   \<and> re_match Special_pattern (fst (strip_left_right ''ADA-SB3024'')) = None
   \<and> parse_item_code (init_importer [] False) ''ADA-SB3024'' =
     \<lparr> width = None, height = None, depth = None, type_code = None,
       is_left_right = False, door_count = 1, drawer_count = 0 \<rparr>"
proof -
  have m: "re_match Base_pattern (fst (strip_left_right ''ADA-SB3024'')) = None"
    "re_match Wall_pattern (fst (strip_left_right ''ADA-SB3024'')) = None"
    "re_match Drawer_pattern (fst (strip_left_right ''ADA-SB3024'')) = None"
    "re_match Special_pattern (fst (strip_left_right ''ADA-SB3024'')) = None"
    by code_simp+
  then have h: "\<forall>p \<in> set patterns. re_match p (fst (strip_left_right ''ADA-SB3024'')) = None"
    by (simp add: patterns_def)
  have "snd (strip_left_right ''ADA-SB3024'') = False" by code_simp
  with no_match_result [OF h, of "init_importer [] False"] m show ?thesis by simp
qed

subsection \<open>Type tokens\<close>

text \<open>
  C6, as stated, fails: the record of \<open>ZQ99\<close>, whose type token is not in the mapping,
  is the very record of \<open>BFD99\<close>, whose type token is; nothing in it marks the token as
  unrecognised.
\<close>

theorem unknown_token_unflagged:
  "map_of type_mapping ''ZQ'' = None \<and> map_of type_mapping ''BFD'' = Some ''B''
   \<and> parse_item_code (init_importer [] False) ''ZQ99''
     = parse_item_code (init_importer [] False) ''BFD99''"
  by code_simp

text \<open>
  C6, amended: a type token that is not a key of the mapping is normalised to \<open>B\<close>; a
  code that some pattern matches, with a type token outside the mapping, is decoded with
  type \<open>B\<close>, as \<open>ZQ99\<close> is.
\<close>

theorem unknown_token_default:
  "(map_of type_mapping t = None \<longrightarrow> normalize_type_code self (Some t) = ''B'')
   \<and> ((\<exists>p \<in> set patterns. re_match p (fst (strip_left_right c)) \<noteq> None)
        \<and> (\<forall>p \<in> set patterns. \<forall>gs. re_match p (fst (strip_left_right c)) = Some gs
              \<longrightarrow> map_of type_mapping (gs ! 0) = None)
      \<longrightarrow> type_code (parse_item_code self c) = Some ''B'')
   \<and> type_code (parse_item_code self ''ZQ99'') = Some ''B''"
proof -
  have a: "map_of type_mapping t = None \<longrightarrow> normalize_type_code self (Some t) = ''B''"
    by (simp add: normalize_type_code_def)
  have b: "type_code (parse_item_code self c) = Some ''B''"
    if "\<exists>p \<in> set patterns. re_match p (fst (strip_left_right c)) \<noteq> None"
      and "\<forall>p \<in> set patterns. \<forall>gs. re_match p (fst (strip_left_right c)) = Some gs
              \<longrightarrow> map_of type_mapping (gs ! 0) = None"
  proof -
    obtain code lr where s: "strip_left_right c = (code, lr)" by (cases "strip_left_right c")
    have "type_code (match_loop self patterns code (initial_result\<lparr>is_left_right := lr\<rparr>)) = Some ''B''"
      using that unfolding s fst_conv
      by (intro match_loop_unknown) (simp_all add: initial_result_def)
    then show ?thesis
      by (simp add: parse_item_code_def s Let_def split: prod.splits)
  qed
  have c: "type_code (parse_item_code self ''ZQ99'') = Some ''B''" by code_simp
  from a b c show ?thesis by blast
qed

theorem unknown_token_default_witness:
  "map_of type_mapping ''ZQ'' = None
   \<and> normalize_type_code (init_importer [] False) (Some ''ZQ'') = ''B''
   \<and> re_match Base_pattern (fst (strip_left_right ''ZQ99'')) = Some [''ZQ'', ''99'', '''']
   \<and> type_code (parse_item_code (init_importer [] False) ''ZQ99'') = Some ''B''"
proof -
  have h0: "map_of type_mapping ''ZQ'' = None" by code_simp
  have m: "re_match Base_pattern (fst (strip_left_right ''ZQ99'')) = Some [''ZQ'', ''99'', '''']"
    "re_match Wall_pattern (fst (strip_left_right ''ZQ99'')) = None"
    "re_match Drawer_pattern (fst (strip_left_right ''ZQ99'')) = None"
    "re_match Special_pattern (fst (strip_left_right ''ZQ99'')) = Some [''ZQ'', ''99'', '''']"
    by code_simp+
  have h1: "\<exists>p \<in> set patterns. re_match p (fst (strip_left_right ''ZQ99'')) \<noteq> None"
    using m by (simp add: patterns_def)
  have h2: "\<forall>p \<in> set patterns. \<forall>gs. re_match p (fst (strip_left_right ''ZQ99'')) = Some gs
              \<longrightarrow> map_of type_mapping (gs ! 0) = None"
    using m h0 by (auto simp: patterns_def)
  from unknown_token_default [of "''ZQ''" "init_importer [] False" "''ZQ99''"] h0 h1 h2 m
  show ?thesis by blast
qed

text \<open>
  C7: for \<open>B24FD\<close> the first pattern gives the groups \<open>B\<close>, \<open>24\<close>, \<open>FD\<close>; the type
  token set before normalisation is group 0 alone, \<open>B\<close>, and the width is 24. The suffix
  \<open>FD\<close> is not part of the token.
\<close>

theorem suffix_not_folded:
  "re_match Base_pattern ''B24FD'' = Some [''B'', ''24'', ''FD'']
   \<and> type_code (extract_groups [''B'', ''24'', ''FD''] initial_result) = Some ''B''
   \<and> width (extract_groups [''B'', ''24'', ''FD''] initial_result) = Some 24
   \<and> type_code (parse_item_code self ''B24FD'') = Some ''B''"
  by code_simp

text \<open>
  The difference shows in the result where letters and suffix together are a key of the
  mapping: \<open>V24D\<close> is decoded as \<open>V\<close>, while the token \<open>VD\<close> is normalised to \<open>VD\<close>.
\<close>

lemma suffix_not_folded_visible:
  "type_code (parse_item_code self ''V24D'') = Some ''V''
   \<and> normalize_type_code self (Some ''VD'') = ''VD''"
  by code_simp

subsection \<open>Doors and drawers\<close>

text \<open>
  C8: \<open>B1212\<close> is decoded as a base cabinet of width 12 and height 12, with two doors:
  the door count is taken from the whole first run of digits, 1212, not from the width
  of the record.
\<close>

theorem base_doors_from_digit_run:
  "parse_item_code self ''B1212'' =
     \<lparr> width = Some 12, height = Some 12, depth = None, type_code = Some ''B'',
       is_left_right = False, door_count = 2, drawer_count = 0 \<rparr>"
  by code_simp

text \<open>
  C10: whatever the type and the item code, the door and drawer counts are not negative
  and not both positive; the types \<open>2DB\<close>, \<open>3DB\<close>, \<open>4DB\<close>, \<open>5DB\<close> have no door and a
  positive drawer count, and every other type (an unset type too) has no drawer.
\<close>

theorem infer_counts:
  assumes "infer_door_drawer_count self tc item_code = (doors, drawers)"
  shows "0 \<le> doors \<and> 0 \<le> drawers \<and> \<not> (0 < doors \<and> 0 < drawers)
   \<and> (tc \<in> {Some ''2DB'', Some ''3DB'', Some ''4DB'', Some ''5DB''}
        \<longrightarrow> doors = 0 \<and> 0 < drawers)
   \<and> (tc \<notin> {Some ''2DB'', Some ''3DB'', Some ''4DB'', Some ''5DB''} \<longrightarrow> drawers = 0)
   \<and> (drawers \<noteq> 0 \<longrightarrow> tc \<in> {Some ''2DB'', Some ''3DB'', Some ''4DB'', Some ''5DB''}
        \<and> doors = 0)"
  using assms
  by (auto simp: infer_door_drawer_count_def py_int_def digit_val_def
      split: if_splits option.splits)

theorem infer_counts_witness:
  "infer_door_drawer_count (init_importer [] False) (Some ''2DB'') ''2DB24'' = (0, 2)
   \<and> infer_door_drawer_count (init_importer [] False) (Some ''W'') ''W3630'' = (2, 0)
   \<and> Some ''2DB'' \<in> {Some ''2DB'', Some ''3DB'', Some ''4DB'', Some ''5DB''}
   \<and> Some ''W'' \<notin> {Some ''2DB'', Some ''3DB'', Some ''4DB'', Some ''5DB''}
   \<and> (2::int) \<noteq> 0"
proof -
  have a: "infer_door_drawer_count (init_importer [] False) (Some ''2DB'') ''2DB24'' = (0, 2)"
    by code_simp
  have b: "infer_door_drawer_count (init_importer [] False) (Some ''W'') ''W3630'' = (2, 0)"
    by code_simp
  from infer_counts [OF a] infer_counts [OF b] a b show ?thesis by simp
qed

subsection \<open>Determinism\<close>

text \<open>
  C9: the record decoded for an item code does not depend on the importer the method is
  called on (its statistics, caches, connection and flags): two calls on the same code
  give the same record, whatever happened to the importer in between.
\<close>

theorem parse_item_code_state_independent:
  "parse_item_code s1 c = parse_item_code s2 c"
  by (simp add: parse_item_code_def infer_door_drawer_count_def match_loop_self [of s1 _ _ _ s2])

end
